theory Spec2Isabelle
  imports Main
begin

section \<open>Go values as reflection sees them\<close>

text \<open>
  The schema walk of \<^verbatim>\<open>snakecharmer.go\<close> inspects the result struct with
  \<^verbatim>\<open>reflect\<close>. A Go value is modelled by the tree that reflection exposes: its kind,
  its payload, and for a struct the declared fields with their tags. A nil pointer,
  nil interface, nil slice and nil map are \<open>None\<close>.
\<close>

datatype kind =
    KInvalid | KBool | KInt | KUint | KUintptr | KFloat | KComplex | KArray | KChan | KFunc
  | KInterface | KMap | KPointer | KSlice | KString | KStruct | KUnsafePointer

text \<open>The kinds that the walk treats alike, as unsupported.\<close>

datatype otherKind = OUintptr | OComplex | OArray | OChan | OFunc | OUnsafePointer

fun otherKindOf :: "otherKind \<Rightarrow> kind" where
  "otherKindOf OUintptr = KUintptr"
| "otherKindOf OComplex = KComplex"
| "otherKindOf OArray = KArray"
| "otherKindOf OChan = KChan"
| "otherKindOf OFunc = KFunc"
| "otherKindOf OUnsafePointer = KUnsafePointer"

datatype rvalue =
    VBool bool
  | VUint nat
  | VInt int
  | VFloat int int
  | VString string
  | VStrings "string list option"
  | VSliceOther
  | VStrMap "(string \<times> string) list option"
  | VMapOther
  | VStruct bool "sfield list"
  | VPtr "rvalue option"
  | VIface "rvalue option"
  | VOther otherKind
and sfield =
    SField string bool "(string \<times> string) list" rvalue

text \<open>
  \<open>VUint\<close>, \<open>VInt\<close> and \<open>VFloat\<close> stand for every width of the kind: the code reads
  them through \<^verbatim>\<open>rv.Uint()\<close>, \<^verbatim>\<open>rv.Int()\<close> and \<^verbatim>\<open>rv.Float()\<close> alike. A float is
  mantissa and binary exponent. \<open>VStrings\<close> is a value of type \<^verbatim>\<open>[]string\<close> and
  \<open>VStrMap\<close> one of type \<^verbatim>\<open>map[string]string\<close>; \<open>VSliceOther\<close> and \<open>VMapOther\<close> are
  slices and maps of any other type. The flag of \<open>VStruct\<close> says whether the struct's
  type is convertible to \<^verbatim>\<open>time.Time\<close>. A field is its name, whether it is exported,
  its tag as key/value pairs, and its value.
\<close>

fun kindOf :: "rvalue \<Rightarrow> kind" where
  "kindOf (VBool _) = KBool"
| "kindOf (VUint _) = KUint"
| "kindOf (VInt _) = KInt"
| "kindOf (VFloat _ _) = KFloat"
| "kindOf (VString _) = KString"
| "kindOf (VStrings _) = KSlice"
| "kindOf VSliceOther = KSlice"
| "kindOf (VStrMap _) = KMap"
| "kindOf VMapOther = KMap"
| "kindOf (VStruct _ _) = KStruct"
| "kindOf (VPtr _) = KPointer"
| "kindOf (VIface _) = KInterface"
| "kindOf (VOther k) = otherKindOf k"

fun fname :: "sfield \<Rightarrow> string" where
  "fname (SField n _ _ _) = n"

fun fexported :: "sfield \<Rightarrow> bool" where
  "fexported (SField _ e _ _) = e"

fun ftag :: "sfield \<Rightarrow> (string \<times> string) list" where
  "ftag (SField _ _ t _) = t"

fun fvalue :: "sfield \<Rightarrow> rvalue" where
  "fvalue (SField _ _ _ v) = v"

text \<open>\<^verbatim>\<open>structField.Tag.Get(key)\<close>: the value of the key, the empty string when absent.\<close>

definition tagGet :: "(string \<times> string) list \<Rightarrow> string \<Rightarrow> string" where
  "tagGet tg k = (case map_of tg k of None \<Rightarrow> [] | Some v \<Rightarrow> v)"

text \<open>\<^verbatim>\<open>strings.Split(fieldTag, ",")[0]\<close>: the text before the first comma.\<close>

definition leafKey :: "string \<Rightarrow> string" where
  "leafKey fieldTag = takeWhile (\<lambda>c. c \<noteq> CHR '','') fieldTag"

section \<open>The external stores\<close>

text \<open>
  The values the option store and the settings store hold. A value read from the
  environment or from a file is held as the store received it.
\<close>

datatype setting =
    SBool bool
  | SUint nat
  | SInt int
  | SFloat int int
  | SString string
  | SStrings "string list"
  | SStrMap "(string \<times> string) list"

record flag =
  flagName :: string
  flagDefault :: setting
  flagUsage :: string

text \<open>
  Modelled from the spec: the two external stores, the option store (\<^verbatim>\<open>cobra\<close>) and
  the settings store (\<^verbatim>\<open>viper\<close>), whose code is not among the sources. The command
  holds its persistent flag set, newest definition first; the settings store holds one
  layer per source, and where to find the config file. As section 4.3 of the spec has
  it, a name or key written twice keeps the last write.
\<close>

record command =
  persistentFlags :: "flag list"

record viperStore =
  defaults :: "string \<rightharpoonup> setting"
  pflags :: "string \<rightharpoonup> string"
  envs :: "string \<rightharpoonup> string list"
  config :: "string \<rightharpoonup> setting"
  configFile :: string
  configType :: string
  configPaths :: "string list"
  configName :: string

definition viperNew :: viperStore where
  "viperNew = \<lparr> defaults = Map.empty, pflags = Map.empty, envs = Map.empty,
     config = Map.empty, configFile = [], configType = [], configPaths = [],
     configName = ''config'' \<rparr>"

definition commandNew :: command where
  "commandNew = \<lparr> persistentFlags = [] \<rparr>"

definition lookupFlag :: "command \<Rightarrow> string \<Rightarrow> flag option" where
  "lookupFlag c n = find (\<lambda>f. flagName f = n) (persistentFlags c)"

definition defineFlag :: "string \<Rightarrow> setting \<Rightarrow> string \<Rightarrow> command \<Rightarrow> command" where
  "defineFlag n d h c =
     c\<lparr> persistentFlags := \<lparr> flagName = n, flagDefault = d, flagUsage = h \<rparr> # persistentFlags c \<rparr>"

definition setDefault :: "string \<Rightarrow> setting \<Rightarrow> viperStore \<Rightarrow> viperStore" where
  "setDefault k d v = v\<lparr> defaults := (defaults v)(k \<mapsto> d) \<rparr>"

definition bindPFlag :: "string \<Rightarrow> string \<Rightarrow> viperStore \<Rightarrow> viperStore" where
  "bindPFlag k n v = v\<lparr> pflags := (pflags v)(k \<mapsto> n) \<rparr>"

definition bindEnv :: "string \<Rightarrow> string \<Rightarrow> viperStore \<Rightarrow> viperStore" where
  "bindEnv k e v =
     v\<lparr> envs := (envs v)(k \<mapsto> (case envs v k of None \<Rightarrow> [] | Some es \<Rightarrow> es) @ [e]) \<rparr>"

section \<open>The engine\<close>

record decoderConfig =
  dcTagName :: string
  dcIgnoreUntaggedFields :: bool
  dcWeaklyTypedInput :: bool
  dcErrorUnused :: bool

text \<open>
  A decoder option is a callback on the decoder configuration. The one that
  \<open>UnmarshalExact\<close> appends reads the engine's field tag name when it is called; the
  one of \<open>WithIgnoreUntaggedFields\<close> carries its flag; the others are the caller's.
\<close>

datatype decoderOption =
    CallerOption "decoderConfig \<Rightarrow> decoderConfig"
  | TagNameOption
  | IgnoreUntaggedOption bool

record snakeCharmer =
  resultStruct :: "rvalue option"
  fieldTagName :: string
  envTagName :: string
  flagHelpTagName :: string
  configFileType :: string
  configFilePath :: string
  configFileBaseName :: string
  viper :: "viperStore option"
  cmd :: "command option"
  decoderConfigOptions :: "decoderOption list"
  ignoreUntaggedFields :: bool

datatype error =
    ResultStructNotSet
  | CmdNotSet
  | NotPointerToStruct
  | InvalidFieldTagName string
  | InvalidEnvTagName string
  | InvalidFlagHelpTagName string
  | InvalidConfigFileType string
  | InvalidConfigFileBaseName string
  | NilInput
  | InvalidInputType kind
  | NilField string
  | UntaggedField string
  | HelpTagMissing string string
  | InvalidType string
  | NilOrEmpty string
  | UnsupportedType kind
  | FlagIsNil string
  | UnexportedField
  | NilDereference
  | ZeroValueType
  | EmptyConfigPath
  | NoSuchFile string
  | Schrodinger string string
  | WhileFinding string error
  | WhileReading string string
  | WhileUnmarshalling string

text \<open>
  \<open>UnexportedField\<close> is the panic of \<^verbatim>\<open>reflect.Value.Interface\<close> on a value obtained
  from an unexported field, \<open>NilDereference\<close> the one of a method called on a nil
  \<^verbatim>\<open>*cobra.Command\<close> or \<^verbatim>\<open>*viper.Viper\<close>, \<open>ZeroValueType\<close> the one of
  \<^verbatim>\<open>reflect.Value.Type\<close> on the zero Value.
\<close>

subsection \<open>applySetting\<close>

text \<open>
  Defines the flag in the command's persistent flag set and the default in the
  settings store; \<open>ci\<close> is whether \<^verbatim>\<open>rv.Interface()\<close> is allowed, that is,
  whether the value was not reached through an unexported field.
\<close>

definition register :: "snakeCharmer \<Rightarrow> string \<Rightarrow> setting \<Rightarrow> string \<Rightarrow> error + snakeCharmer" where
  "register sch name d help =
     (case cmd sch of
        None \<Rightarrow> Inl NilDereference
      | Some c \<Rightarrow>
          (case viper sch of
             None \<Rightarrow> Inl NilDereference
           | Some v \<Rightarrow>
               Inr (sch\<lparr> cmd := Some (defineFlag name d help c),
                        viper := Some (setDefault name d v) \<rparr>)))"

fun applySetting :: "snakeCharmer \<Rightarrow> bool \<Rightarrow> rvalue \<Rightarrow> string \<Rightarrow> string \<Rightarrow> error + snakeCharmer" where
  "applySetting sch ci (VBool b) name help = register sch name (SBool b) help"
| "applySetting sch ci (VUint n) name help = register sch name (SUint n) help"
| "applySetting sch ci (VInt i) name help = register sch name (SInt i) help"
| "applySetting sch ci (VFloat m e) name help = register sch name (SFloat m e) help"
| "applySetting sch ci (VString s) name help = register sch name (SString s) help"
| "applySetting sch ci (VStrings xs) name help =
     (if \<not> ci then Inl UnexportedField
      else case xs of
        None \<Rightarrow> Inl (NilOrEmpty name)
      | Some ys \<Rightarrow>
          if length ys = 0 then Inl (NilOrEmpty name)
          else register sch name (SStrings ys) help)"
| "applySetting sch ci VSliceOther name help =
     (if \<not> ci then Inl UnexportedField else Inl (InvalidType name))"
| "applySetting sch ci (VStrMap m) name help =
     (if \<not> ci then Inl UnexportedField
      else case m of
        None \<Rightarrow> Inl (NilOrEmpty name)
      | Some kvs \<Rightarrow> register sch name (SStrMap kvs) help)"
| "applySetting sch ci VMapOther name help =
     (if \<not> ci then Inl UnexportedField else Inl (InvalidType name))"
| "applySetting sch ci v name help = Inl (UnsupportedType (kindOf v))"

subsection \<open>addFlags\<close>

text \<open>
  The part of the loop body after the nested-struct case: help tag, applySetting,
  BindPFlag, BindEnv.
\<close>

definition bindLeaf :: "snakeCharmer \<Rightarrow> sfield \<Rightarrow> rvalue \<Rightarrow> string \<Rightarrow> error + snakeCharmer" where
  "bindLeaf sch f fieldValue key =
     (let help = tagGet (ftag f) (flagHelpTagName sch) in
      if length help = 0 then Inl (HelpTagMissing (flagHelpTagName sch) (fname f))
      else case applySetting sch (fexported f) fieldValue key help of
        Inl e \<Rightarrow> Inl e
      | Inr sch1 \<Rightarrow>
          (case cmd sch1 of
             None \<Rightarrow> Inl NilDereference
           | Some c \<Rightarrow>
               (case viper sch1 of
                  None \<Rightarrow> Inl NilDereference
                | Some v \<Rightarrow>
                    (case lookupFlag c key of
                       None \<Rightarrow> Inl (FlagIsNil key)
                     | Some fl \<Rightarrow>
                         (let v1 = bindPFlag key (flagName fl) v;
                              env = tagGet (ftag f) (envTagName sch1)
                          in if length env > 0
                             then Inr (sch1\<lparr> viper := Some (bindEnv key env v1) \<rparr>)
                             else Inr (sch1\<lparr> viper := Some v1 \<rparr>))))))"

text \<open>
  The dereference both \<open>addFlags\<close> and its loop start with: one level of pointer or
  interface is followed; \<open>None\<close> is the nil that makes the code panic.
\<close>

fun deref :: "rvalue \<Rightarrow> rvalue option" where
  "deref (VPtr None) = None"
| "deref (VIface None) = None"
| "deref (VPtr (Some x)) = Some x"
| "deref (VIface (Some x)) = Some x"
| "deref v = Some v"

lemma sfield_size: "size (fvalue f) < size f"
  by (cases f) simp

lemma deref_size: "deref v = Some x \<Longrightarrow> size x \<le> size v"
  by (induction v rule: deref.induct) auto

text \<open>
  \<open>addFlags\<close> is the method of the source; \<open>addFields\<close> is its loop over the fields,
  from index \<open>i\<close> on, and an \<open>Inl\<close> is a panic.
\<close>

function addFlags :: "snakeCharmer \<Rightarrow> rvalue option \<Rightarrow> string \<Rightarrow> error + snakeCharmer"
and addFields :: "snakeCharmer \<Rightarrow> sfield list \<Rightarrow> string \<Rightarrow> error + snakeCharmer" where
  "addFlags sch input prefix =
     (case input of
        None \<Rightarrow> Inl (InvalidInputType KInvalid)
      | Some v0 \<Rightarrow>
          (case deref v0 of
             None \<Rightarrow> Inl NilInput
           | Some v \<Rightarrow>
               (case v of
                  VStruct t fs \<Rightarrow> addFields sch fs prefix
                | _ \<Rightarrow> Inl (InvalidInputType (kindOf v)))))"
| "addFields sch [] prefix = Inr sch"
| "addFields sch (f # rest) prefix =
     (case deref (fvalue f) of
        None \<Rightarrow> Inl (NilField (fname f))
      | Some fieldValue \<Rightarrow>
          (let fieldTag = tagGet (ftag f) (fieldTagName sch) in
           if length fieldTag = 0 then
             (if ignoreUntaggedFields sch then addFields sch rest prefix
              else Inl (UntaggedField (fname f)))
           else
             (let key0 = leafKey fieldTag;
                  key = (if length prefix > 0 then prefix @ ''.'' @ key0 else key0)
              in if kindOf fieldValue = KStruct then
                   (if \<not> fexported f then Inl UnexportedField
                    else case addFlags sch (Some fieldValue) key of
                      Inl e \<Rightarrow> Inl e
                    | Inr sch1 \<Rightarrow> addFields sch1 rest prefix)
                 else
                   (case bindLeaf sch f fieldValue key of
                      Inl e \<Rightarrow> Inl e
                    | Inr sch1 \<Rightarrow> addFields sch1 rest prefix))))"
  by pat_completeness auto

termination
proof (relation "measure (\<lambda>x. case x of
          Inl (sch, inp, p) \<Rightarrow> size_option size inp
        | Inr (sch, fs, p) \<Rightarrow> size_list size fs)", goal_cases)
  case 1
  show ?case by simp
next
  case (2 sch input prefix v0 v t fs)
  from deref_size [OF 2(2)] 2(1) 2(3) show ?case by simp
next
  case (3 sch f rest prefix fieldValue)
  show ?case by simp
next
  case (4 sch f rest prefix fieldValue fieldTag key0 key)
  from deref_size [OF 4(1)] sfield_size [of f] show ?case by simp
next
  case (5 sch f rest prefix fieldValue fieldTag key0 key sch1)
  show ?case by simp
next
  case (6 sch f rest prefix fieldValue fieldTag key0 key sch1)
  show ?case by simp
qed

definition AddFlags :: "snakeCharmer \<Rightarrow> error + snakeCharmer" where
  "AddFlags sch = addFlags sch (resultStruct sch) []"

section \<open>Construction and reconfiguration\<close>

















definition initial :: snakeCharmer where
  "initial = \<lparr> resultStruct = None, fieldTagName = ''mapstructure'', envTagName = ''env'',
     flagHelpTagName = ''usage'', configFileType = ''yaml'', configFilePath = [],
     configFileBaseName = ''config'', viper = None, cmd = None,
     decoderConfigOptions = [], ignoreUntaggedFields = False \<rparr>"




section \<open>The config file\<close>

text \<open>
  What the code reads from outside: \<^verbatim>\<open>os.Stat\<close> of a path, the outcome of the
  settings store's reading of the file it is pointed at (an error text, or the file
  used and its content by dotted key), the flags set on the command line and the
  environment variables the settings store finds set.
\<close>

datatype statResult = IsDir | IsFile | NotExist | StatError string

record world =
  osStat :: "string \<Rightarrow> statResult"
  readFile :: "string \<Rightarrow> string \<Rightarrow> string list \<Rightarrow> string \<Rightarrow> string + (string \<times> (string \<rightharpoonup> setting))"
  flagsSet :: "string \<rightharpoonup> setting"
  environ :: "string \<rightharpoonup> string"

text \<open>
  \<^verbatim>\<open>filepath.Ext\<close>: the suffix from the last dot of the last element of the path,
  empty when that element has no dot; \<^verbatim>\<open>strings.TrimPrefix(_, ".")\<close> drops the dot.
\<close>

definition filepathExt :: "string \<Rightarrow> string" where
  "filepathExt path =
     (let base = rev (takeWhile (\<lambda>c. c \<noteq> CHR ''/'') (rev path)) in
      if CHR ''.'' \<in> set base
      then CHR ''.'' # rev (takeWhile (\<lambda>c. c \<noteq> CHR ''.'') (rev base))
      else [])"

definition trimPrefixDot :: "string \<Rightarrow> string" where
  "trimPrefixDot s = (case s of [] \<Rightarrow> [] | c # r \<Rightarrow> if c = CHR ''.'' then r else s)"

text \<open>
  Modelled from the spec: the operations of the settings store that section 6 of the
  spec lists for the config file (search directory and base name, exact file path,
  file format, read and merge); their code is the store's, not the package's.
  \<open>AddConfigPath\<close> keeps one copy of a path, \<open>SetConfigName\<close> forgets the file found
  before, and reading replaces the config layer by the content of the file and
  records the file used.
\<close>

definition addConfigPath :: "string \<Rightarrow> viperStore \<Rightarrow> viperStore" where
  "addConfigPath p v =
     (if p \<in> set (configPaths v) then v else v\<lparr> configPaths := configPaths v @ [p] \<rparr>)"

definition setConfigName :: "string \<Rightarrow> viperStore \<Rightarrow> viperStore" where
  "setConfigName n v = v\<lparr> configName := n, configFile := [] \<rparr>"

definition setConfigType :: "string \<Rightarrow> viperStore \<Rightarrow> viperStore" where
  "setConfigType t v = v\<lparr> configType := t \<rparr>"

definition setConfigFile :: "string \<Rightarrow> viperStore \<Rightarrow> viperStore" where
  "setConfigFile p v = v\<lparr> configFile := p \<rparr>"

definition readInConfig :: "world \<Rightarrow> viperStore \<Rightarrow> string + viperStore" where
  "readInConfig w v =
     (case readFile w (configFile v) (configType v) (configPaths v) (configName v) of
        Inl msg \<Rightarrow> Inl msg
      | Inr (used, m) \<Rightarrow> Inr (v\<lparr> config := m, configFile := used \<rparr>))"

definition findConfigFile ::
  "(string \<Rightarrow> bool) \<Rightarrow> world \<Rightarrow> snakeCharmer \<Rightarrow> (bool \<times> error option) \<times> snakeCharmer" where
  "findConfigFile supp w sch =
     (if length (configFilePath sch) = 0 then ((False, Some EmptyConfigPath), sch)
      else case osStat w (configFilePath sch) of
        IsDir \<Rightarrow>
          (case viper sch of
             None \<Rightarrow> ((False, Some NilDereference), sch)
           | Some v \<Rightarrow>
               ((True, None),
                sch\<lparr> viper := Some (setConfigName (configFileBaseName sch)
                                      (addConfigPath (configFilePath sch) v)) \<rparr>))
      | IsFile \<Rightarrow>
          (case viper sch of
             None \<Rightarrow> ((False, Some NilDereference), sch)
           | Some v \<Rightarrow>
               (let fext = trimPrefixDot (filepathExt (configFilePath sch)) in
                if length fext = 0 then
                  ((True, None),
                   sch\<lparr> viper := Some (setConfigFile (configFilePath sch)
                                         (setConfigType (configFileType sch) v)) \<rparr>)
                else if supp fext then
                  ((True, None), sch\<lparr> viper := Some (setConfigFile (configFilePath sch) v) \<rparr>)
                else
                  ((True, None),
                   sch\<lparr> viper := Some (setConfigFile (configFilePath sch)
                                         (setConfigType (configFileType sch) v)) \<rparr>)))
      | NotExist \<Rightarrow> ((False, Some (NoSuchFile (configFilePath sch))), sch)
      | StatError msg \<Rightarrow> ((False, Some (Schrodinger (configFilePath sch) msg)), sch))"

definition mergeInConfigFile ::
  "(string \<Rightarrow> bool) \<Rightarrow> world \<Rightarrow> snakeCharmer \<Rightarrow> error option \<times> snakeCharmer" where
  "mergeInConfigFile supp w sch =
     (if length (configFilePath sch) = 0 then (Some EmptyConfigPath, sch)
      else (case findConfigFile supp w sch of
        ((found, Some err), sch1) \<Rightarrow> (Some (WhileFinding (configFilePath sch) err), sch1)
      | ((found, None), sch1) \<Rightarrow>
          (if \<not> found then (None, sch1)
           else (case viper sch1 of
             None \<Rightarrow> (Some NilDereference, sch1)
           | Some v \<Rightarrow>
               (case readInConfig w v of
                  Inl msg \<Rightarrow> (Some (WhileReading (configFilePath sch) msg), sch1)
                | Inr v1 \<Rightarrow> (None, sch1\<lparr> viper := Some v1 \<rparr>))))))"

section \<open>Resolution\<close>

text \<open>
  Modelled from the spec: the layered lookup of the settings store (\<^verbatim>\<open>viper\<close>), which
  is not among the sources. Section 4.5 of the spec gives its order per key: the value
  of a bound option that was set on the command line, then the value of a bound
  environment variable that is set, then the merged config file, then the default.
\<close>

fun firstSet :: "world \<Rightarrow> string list \<Rightarrow> string option" where
  "firstSet w [] = None"
| "firstSet w (e # es) = (case environ w e of Some s \<Rightarrow> Some s | None \<Rightarrow> firstSet w es)"

definition flagLayer :: "viperStore \<Rightarrow> world \<Rightarrow> string \<Rightarrow> setting option" where
  "flagLayer v w k = (case pflags v k of None \<Rightarrow> None | Some n \<Rightarrow> flagsSet w n)"

definition envLayer :: "viperStore \<Rightarrow> world \<Rightarrow> string \<Rightarrow> setting option" where
  "envLayer v w k =
     (case envs v k of
        None \<Rightarrow> None
      | Some es \<Rightarrow> (case firstSet w es of None \<Rightarrow> None | Some s \<Rightarrow> Some (SString s)))"

definition findValue :: "viperStore \<Rightarrow> world \<Rightarrow> string \<Rightarrow> setting option" where
  "findValue v w k =
     (case flagLayer v w k of
        Some x \<Rightarrow> Some x
      | None \<Rightarrow>
          (case envLayer v w k of
             Some x \<Rightarrow> Some x
           | None \<Rightarrow>
               (case config v k of
                  Some x \<Rightarrow> Some x
                | None \<Rightarrow> defaults v k)))"

definition allSettings :: "viperStore \<Rightarrow> world \<Rightarrow> (string \<rightharpoonup> setting)" where
  "allSettings v w = (\<lambda>k. findValue v w k)"

text \<open>
  The decoder configuration that \<^verbatim>\<open>viper.UnmarshalExact\<close> builds: its own defaults,
  then the options in order, then \<^verbatim>\<open>ErrorUnused\<close>. \<open>tn\<close> is the engine's field tag
  name at that moment, which the tag name option reads.
\<close>

definition decoderDefaults :: decoderConfig where
  "decoderDefaults = \<lparr> dcTagName = [], dcIgnoreUntaggedFields = False,
     dcWeaklyTypedInput = True, dcErrorUnused = False \<rparr>"

definition applyDecoderOption :: "string \<Rightarrow> decoderOption \<Rightarrow> decoderConfig \<Rightarrow> decoderConfig" where
  "applyDecoderOption tn opt dc =
     (case opt of
        CallerOption f \<Rightarrow> f dc
      | TagNameOption \<Rightarrow> dc\<lparr> dcTagName := tn \<rparr>
      | IgnoreUntaggedOption on \<Rightarrow> dc\<lparr> dcIgnoreUntaggedFields := on \<rparr>)"

definition decoderConfigOf :: "snakeCharmer \<Rightarrow> decoderConfig" where
  "decoderConfigOf sch =
     (fold (applyDecoderOption (fieldTagName sch)) (decoderConfigOptions sch) decoderDefaults)
       \<lparr> dcErrorUnused := True \<rparr>"

text \<open>
  The decode step itself (\<^verbatim>\<open>mapstructure\<close>) is a parameter: from the decoder
  configuration, the resolved settings and the value the result pointer points to, it
  gives an error text or nothing, and that value as it leaves it. It is handed the
  pointer by value, so the reference the engine holds stays; a result that is not a
  non-nil pointer is refused.
\<close>

type_synonym decoder =
  "decoderConfig \<Rightarrow> (string \<rightharpoonup> setting) \<Rightarrow> rvalue \<Rightarrow> string option \<times> rvalue"

definition viperUnmarshalExact ::
  "decoder \<Rightarrow> world \<Rightarrow> snakeCharmer \<Rightarrow> error option \<times> snakeCharmer" where
  "viperUnmarshalExact dec w sch =
     (case viper sch of
        None \<Rightarrow> (Some NilDereference, sch)
      | Some v \<Rightarrow>
          (case resultStruct sch of
             Some (VPtr (Some x)) \<Rightarrow>
               (case dec (decoderConfigOf sch) (allSettings v w) x of
                  (Some msg, x1) \<Rightarrow>
                    (Some (WhileUnmarshalling msg), sch\<lparr> resultStruct := Some (VPtr (Some x1)) \<rparr>)
                | (None, x1) \<Rightarrow> (None, sch\<lparr> resultStruct := Some (VPtr (Some x1)) \<rparr>))
           | _ \<Rightarrow> (Some (WhileUnmarshalling ''result must be a pointer''), sch)))"

text \<open>
  \<open>UnmarshalExact\<close> is three statements: the merge of the config file when a path is
  configured, the appending of the tag name option when the field tag name is not the
  decoder's own, and the call of the settings store's strict decode.
\<close>

definition mergeIfConfigured ::
  "(string \<Rightarrow> bool) \<Rightarrow> world \<Rightarrow> snakeCharmer \<Rightarrow> error option \<times> snakeCharmer" where
  "mergeIfConfigured supp w sch =
     (if length (configFilePath sch) > 0 then mergeInConfigFile supp w sch else (None, sch))"

definition withTagNameOption :: "snakeCharmer \<Rightarrow> snakeCharmer" where
  "withTagNameOption sch =
     (if fieldTagName sch \<noteq> ''mapstructure''
      then sch\<lparr> decoderConfigOptions := decoderConfigOptions sch @ [TagNameOption] \<rparr>
      else sch)"

definition UnmarshalExact ::
  "decoder \<Rightarrow> (string \<Rightarrow> bool) \<Rightarrow> world \<Rightarrow> snakeCharmer \<Rightarrow> error option \<times> snakeCharmer" where
  "UnmarshalExact dec supp w sch =
     (case mergeIfConfigured supp w sch of
        (Some err, sch1) \<Rightarrow> (Some err, sch1)
      | (None, sch1) \<Rightarrow> viperUnmarshalExact dec w (withTagNameOption sch1))"



section \<open>The field descriptors of the spec\<close>

text \<open>
  Section 3 of the spec: the walk derives for each leaf field a dotted key, the parent
  keys joined by a dot. \<open>descriptors\<close> follows sections 4.1 and 4.2 of the spec, not
  the code: an untagged field gives nothing, a nested struct gives the descriptors of
  its fields under the extended prefix and none of its own, any other field gives
  its key, the field and its dereferenced value.
\<close>

definition joinKey :: "string \<Rightarrow> string \<Rightarrow> string" where
  "joinKey prefix key0 = (if length prefix > 0 then prefix @ ''.'' @ key0 else key0)"

function descriptors :: "string \<Rightarrow> string \<Rightarrow> sfield list \<Rightarrow> (string \<times> sfield \<times> rvalue) list" where
  "descriptors tn prefix [] = []"
| "descriptors tn prefix (f # rest) =
     (case deref (fvalue f) of
        None \<Rightarrow> []
      | Some x \<Rightarrow>
          if tagGet (ftag f) tn = [] then []
          else (case x of
                  VStruct t gs \<Rightarrow> descriptors tn (joinKey prefix (leafKey (tagGet (ftag f) tn))) gs
                | _ \<Rightarrow> [(joinKey prefix (leafKey (tagGet (ftag f) tn)), f, x)]))
     @ descriptors tn prefix rest"
  by pat_completeness auto

termination
proof (relation "measure (\<lambda>(tn, p, fs). size_list size fs)", goal_cases)
  case 1
  show ?case by simp
next
  case (2 tn prefix f rest x t gs)
  from deref_size [OF 2(1)] 2(3) sfield_size [of f] show ?case by simp
next
  case (3 tn prefix f rest)
  show ?case by simp
qed

text \<open>The default that \<open>applySetting\<close> registers for a value of a supported kind.\<close>

fun settingOf :: "rvalue \<Rightarrow> setting option" where
  "settingOf (VBool b) = Some (SBool b)"
| "settingOf (VUint n) = Some (SUint n)"
| "settingOf (VInt i) = Some (SInt i)"
| "settingOf (VFloat m e) = Some (SFloat m e)"
| "settingOf (VString s) = Some (SString s)"
| "settingOf (VStrings (Some ys)) = Some (SStrings ys)"
| "settingOf (VStrMap (Some kvs)) = Some (SStrMap kvs)"
| "settingOf _ = None"

text \<open>An engine with fresh stores and the default tag names, for the examples.\<close>

definition exampleEngine :: snakeCharmer where
  "exampleEngine = initial\<lparr> viper := Some viperNew, cmd := Some commandNew \<rparr>"

section \<open>The walk, step by step\<close>

lemma otherKindOf_struct: "otherKindOf k \<noteq> KStruct"
  by (cases k) auto

lemma kindOf_struct: "kindOf v = KStruct \<longleftrightarrow> (\<exists>t gs. v = VStruct t gs)"
  by (cases v) (auto simp: otherKindOf_struct)

lemma fields_induct [case_names Nil Cons]:
  assumes nil: "P []"
    and cons: "\<And>f rest. P rest \<Longrightarrow>
                 (\<And>t gs. deref (fvalue f) = Some (VStruct t gs) \<Longrightarrow> P gs) \<Longrightarrow> P (f # rest)"
  shows "P fs"
proof (induction fs rule: measure_induct_rule [where f = "size_list size"])
  case (less fs)
  show ?case
  proof (cases fs)
    case Nil
    then show ?thesis using nil by simp
  next
    case (Cons f rest)
    have r: "P rest" using less [of rest] Cons by simp
    have n: "P gs" if d: "deref (fvalue f) = Some (VStruct t gs)" for t gs
    proof -
      have "size (VStruct t gs) \<le> size (fvalue f)" using deref_size [OF d] .
      then have "size_list size gs < size_list size fs"
        using sfield_size [of f] Cons by simp
      then show ?thesis using less by simp
    qed
    show ?thesis using cons [OF r n] Cons by simp
  qed
qed

lemma addFields_append:
  "addFields sch (xs @ ys) p =
     (case addFields sch xs p of Inl e \<Rightarrow> Inl e | Inr s \<Rightarrow> addFields s ys p)"
  by (induction xs arbitrary: sch) (auto simp: Let_def split: option.splits sum.splits)

lemma addFields_struct:
  "deref (fvalue f) = Some (VStruct t gs) \<Longrightarrow> tagGet (ftag f) (fieldTagName sch) \<noteq> [] \<Longrightarrow>
   addFields sch (f # rest) p =
     (if \<not> fexported f then Inl UnexportedField
      else case addFields sch gs (joinKey p (leafKey (tagGet (ftag f) (fieldTagName sch)))) of
             Inl e \<Rightarrow> Inl e
           | Inr sch1 \<Rightarrow> addFields sch1 rest p)"
  by (simp add: Let_def joinKey_def)

lemma addFields_leaf:
  "deref (fvalue f) = Some x \<Longrightarrow> tagGet (ftag f) (fieldTagName sch) \<noteq> [] \<Longrightarrow>
   kindOf x \<noteq> KStruct \<Longrightarrow>
   addFields sch (f # rest) p =
     (case bindLeaf sch f x (joinKey p (leafKey (tagGet (ftag f) (fieldTagName sch)))) of
        Inl e \<Rightarrow> Inl e
      | Inr sch1 \<Rightarrow> addFields sch1 rest p)"
  by (simp add: Let_def joinKey_def)

text \<open>The walk changes the two stores and nothing else of the engine.\<close>

definition sameConfig :: "snakeCharmer \<Rightarrow> snakeCharmer \<Rightarrow> bool" where
  "sameConfig s sch = (fieldTagName s = fieldTagName sch \<and> envTagName s = envTagName sch \<and>
     flagHelpTagName s = flagHelpTagName sch \<and> ignoreUntaggedFields s = ignoreUntaggedFields sch \<and>
     resultStruct s = resultStruct sch \<and> configFilePath s = configFilePath sch \<and>
     configFileType s = configFileType sch \<and> configFileBaseName s = configFileBaseName sch \<and>
     decoderConfigOptions s = decoderConfigOptions sch)"

lemma sameConfig_trans: "sameConfig a b \<Longrightarrow> sameConfig b c \<Longrightarrow> sameConfig a c"
  by (simp add: sameConfig_def)

lemma register_same: "register sch n d h = Inr s \<Longrightarrow> sameConfig s sch"
  by (auto simp: register_def sameConfig_def split: option.splits)

lemma applySetting_same: "applySetting sch ci v n h = Inr s \<Longrightarrow> sameConfig s sch"
  by (cases v) (auto dest!: register_same split: if_splits option.splits)

lemma bindLeaf_same: "bindLeaf sch f v k = Inr s \<Longrightarrow> sameConfig s sch"
  by (auto simp: bindLeaf_def Let_def sameConfig_def dest!: applySetting_same
           split: if_splits option.splits sum.splits)

lemma addFields_same: "addFields sch fs p = Inr s \<Longrightarrow> sameConfig s sch"
proof (induction fs arbitrary: sch p s rule: fields_induct)
  case Nil
  then show ?case by (simp add: sameConfig_def)
next
  case (Cons f rest)
  show ?case
  proof (cases "deref (fvalue f)")
    case None
    with Cons.prems show ?thesis by simp
  next
    case (Some x)
    show ?thesis
    proof (cases "tagGet (ftag f) (fieldTagName sch) = []")
      case True
      with Cons.prems Some Cons.IH(1) show ?thesis
        by (simp split: if_splits)
    next
      case False
      show ?thesis
      proof (cases "kindOf x = KStruct")
        case True
        then obtain t gs where x: "x = VStruct t gs" by (auto simp: kindOf_struct)
        from Cons.prems obtain s1 where
          s1: "addFields sch gs (joinKey p (leafKey (tagGet (ftag f) (fieldTagName sch)))) = Inr s1"
          and r: "addFields s1 rest p = Inr s"
          unfolding addFields_struct [OF Some [unfolded x] False]
          by (auto split: if_splits sum.splits)
        from Cons.IH(2) [OF Some [unfolded x] s1] Cons.IH(1) [OF r]
        show ?thesis by (rule sameConfig_trans [rotated])
      next
        case k: False
        from Cons.prems obtain s1 where
          s1: "bindLeaf sch f x (joinKey p (leafKey (tagGet (ftag f) (fieldTagName sch)))) = Inr s1"
          and r: "addFields s1 rest p = Inr s"
          unfolding addFields_leaf [OF Some False k]
          by (auto split: sum.splits)
        from bindLeaf_same [OF s1] Cons.IH(1) [OF r]
        show ?thesis by (rule sameConfig_trans [rotated])
      qed
    qed
  qed
qed

section \<open>Defaults of sequence and mapping leaves\<close>

text \<open>
  Claim C2: binding a \<^verbatim>\<open>[]string\<close> or \<^verbatim>\<open>map[string]string\<close> leaf whose default is nil
  or empty fails. For the nil and the empty slice and for the nil map it does
  (\<open>nil_or_empty_rejected\<close>). For a map that is empty and not nil the code tests
  \<^verbatim>\<open>value == nil\<close> only, so the binding goes through: the option and the default are
  registered with the empty map.
\<close>

theorem empty_map_default_accepted:
  "applySetting exampleEngine True (VStrMap (Some [])) ''dst'' ''Log destinations''
     = register exampleEngine ''dst'' (SStrMap []) ''Log destinations''
   \<and> (\<exists>s. addFields exampleEngine
          [SField ''Dst'' True [(''mapstructure'', ''dst''), (''usage'', ''Log destinations'')]
             (VStrMap (Some []))] [] = Inr s
        \<and> map flagName (persistentFlags (the (cmd s))) = [''dst'']
        \<and> defaults (the (viper s)) ''dst'' = Some (SStrMap []))"
  by (simp add: exampleEngine_def initial_def viperNew_def commandNew_def register_def
      bindLeaf_def tagGet_def leafKey_def Let_def defineFlag_def setDefault_def lookupFlag_def
      bindPFlag_def)

text \<open>The cases of the claim that the code does reject.\<close>

lemma nil_or_empty_rejected:
  "applySetting sch True (VStrings None) k h = Inl (NilOrEmpty k)"
  "applySetting sch True (VStrings (Some [])) k h = Inl (NilOrEmpty k)"
  "applySetting sch True (VStrMap None) k h = Inl (NilOrEmpty k)"
  by simp_all

section \<open>Nil fields\<close>

text \<open>
  Claim C9: a field whose value is a nil pointer or a nil interface makes the walk
  panic whatever its tag and whatever the ignore-untagged-fields flag, since the nil
  check precedes the reading of the tag; this holds wherever the field stands in
  the struct.
\<close>

theorem nil_field_halts_walk:
  assumes "fvalue f = VPtr None \<or> fvalue f = VIface None"
  shows "addFields sch (f # rest) prefix = Inl (NilField (fname f))
       \<and> (\<exists>e. addFields sch (pre @ f # rest) prefix = Inl e)"
proof -
  from assms have d: "deref (fvalue f) = None" by auto
  have a: "addFields sch' (f # rest) prefix = Inl (NilField (fname f))" for sch'
    using d by simp
  have "\<exists>e. addFields sch (pre @ f # rest) prefix = Inl e"
    unfolding addFields_append using a by (cases "addFields sch pre prefix") auto
  with a show ?thesis by blast
qed

text \<open>
  An untagged nil pointer with the flag on halts the walk; the same field with a
  value is skipped.
\<close>

theorem nil_field_halts_walk_witness:
  "(fvalue (SField ''Limit'' True [] (VPtr None)) = VPtr None
      \<or> fvalue (SField ''Limit'' True [] (VPtr None)) = VIface None)
   \<and> ignoreUntaggedFields (exampleEngine\<lparr> ignoreUntaggedFields := True \<rparr>)
   \<and> tagGet (ftag (SField ''Limit'' True [] (VPtr None))) (fieldTagName exampleEngine) = []
   \<and> addFields (exampleEngine\<lparr> ignoreUntaggedFields := True \<rparr>)
        [SField ''Limit'' True [] (VPtr None)] [] = Inl (NilField ''Limit'')
   \<and> addFields (exampleEngine\<lparr> ignoreUntaggedFields := True \<rparr>)
        [SField ''Limit'' True [] (VPtr (Some (VUint 100)))] [] =
       Inr (exampleEngine\<lparr> ignoreUntaggedFields := True \<rparr>)"
  using nil_field_halts_walk [of "SField ''Limit'' True [] (VPtr None)"
      "exampleEngine\<lparr> ignoreUntaggedFields := True \<rparr>" "[]" "[]" "[]"]
  by (simp add: tagGet_def exampleEngine_def initial_def)

section \<open>Untagged fields\<close>

text \<open>
  Claim C4: for a field without the field-key tag, with the ignore-untagged-fields
  flag on the field is left out of the binding: a walk that succeeds ends in the
  very stores of the walk without the field, and when the field is not nil the two
  walks are equal. With the flag off the walk fails, with the untagged-field panic
  when the field is reached and is not nil.
\<close>

theorem untagged_field:
  assumes u: "tagGet (ftag f) (fieldTagName sch) = []"
  shows "(ignoreUntaggedFields sch \<longrightarrow>
            (\<forall>s. addFields sch (pre @ f # post) p = Inr s \<longrightarrow> addFields sch (pre @ post) p = Inr s)
          \<and> (deref (fvalue f) \<noteq> None \<longrightarrow>
               addFields sch (pre @ f # post) p = addFields sch (pre @ post) p))
       \<and> (\<not> ignoreUntaggedFields sch \<longrightarrow>
            (\<exists>e. addFields sch (pre @ f # post) p = Inl e)
          \<and> (deref (fvalue f) \<noteq> None \<longrightarrow>
               addFields sch (f # post) p = Inl (UntaggedField (fname f))))"
proof (cases "addFields sch pre p")
  case (Inl e)
  then show ?thesis using u by (auto simp: addFields_append)
next
  case (Inr s1)
  from addFields_same [OF Inr] have c: "fieldTagName s1 = fieldTagName sch"
    "ignoreUntaggedFields s1 = ignoreUntaggedFields sch"
    by (simp_all add: sameConfig_def)
  show ?thesis
  proof (cases "deref (fvalue f)")
    case None
    then show ?thesis using Inr by (simp add: addFields_append)
  next
    case (Some x)
    then show ?thesis using Inr u c by (simp add: addFields_append)
  qed
qed

text \<open>The unexported, untagged \<^verbatim>\<open>ignoreMe bool\<close> of the test structs, flag on and off.\<close>

theorem untagged_field_witness:
  "tagGet (ftag (SField ''ignoreMe'' False [] (VBool True))) (fieldTagName exampleEngine) = []
   \<and> addFields (exampleEngine\<lparr> ignoreUntaggedFields := True \<rparr>)
        [SField ''ignoreMe'' False [] (VBool True)] [] =
       Inr (exampleEngine\<lparr> ignoreUntaggedFields := True \<rparr>)
   \<and> addFields exampleEngine [SField ''ignoreMe'' False [] (VBool True)] [] =
       Inl (UntaggedField ''ignoreMe'')"
  using untagged_field [of "SField ''ignoreMe'' False [] (VBool True)" exampleEngine "[]" "[]" "[]"]
    untagged_field [of "SField ''ignoreMe'' False [] (VBool True)"
       "exampleEngine\<lparr> ignoreUntaggedFields := True \<rparr>" "[]" "[]" "[]"]
  by (simp add: tagGet_def exampleEngine_def initial_def)


section \<open>Locating the config file\<close>

text \<open>
  For the examples: the extensions that \<^verbatim>\<open>viper.SupportedExts\<close> lists, which the
  comments of the source point to, and a file system with three files, a path that
  cannot be examined and nothing else.
\<close>

definition viperSupportedExts :: "string \<Rightarrow> bool" where
  "viperSupportedExts e = (e \<in> set [''json'', ''toml'', ''yaml'', ''yml'', ''properties'',
     ''props'', ''prop'', ''hcl'', ''tfvars'', ''dotenv'', ''env'', ''ini''])"

definition exampleWorld :: world where
  "exampleWorld = \<lparr> osStat = (\<lambda>p. if p = ''x.json'' \<or> p = ''x.xyz'' \<or> p = ''./test-config'' then IsFile
                                  else if p = ''/root/secret'' then StatError ''permission denied''
                                  else NotExist),
     readFile = (\<lambda>f t ps n. Inl ''unreadable''),
     flagsSet = Map.empty, environ = Map.empty \<rparr>"

text \<open>
  Claim C5: for a path that exists and is a file, the resolver never fails; when the
  extension is one of the supported ones it sets the exact file path in the settings
  store and leaves the store's file type as it was; when the path has no extension
  or an unsupported one it sets the engine's configured file type and the exact file
  path. Nothing else of the store changes.
\<close>

theorem config_file_by_extension:
  assumes "configFilePath sch \<noteq> []"
    and "osStat w (configFilePath sch) = IsFile"
    and "viper sch = Some v"
  shows "findConfigFile supp w sch =
           ((True, None),
            sch\<lparr> viper := Some (v\<lparr> configType :=
                        (if trimPrefixDot (filepathExt (configFilePath sch)) \<noteq> []
                            \<and> supp (trimPrefixDot (filepathExt (configFilePath sch)))
                         then configType v else configFileType sch),
                      configFile := configFilePath sch \<rparr>) \<rparr>)"
  using assms
  by (simp add: findConfigFile_def Let_def setConfigFile_def setConfigType_def)

text \<open>\<^verbatim>\<open>x.json\<close>, \<^verbatim>\<open>x.xyz\<close> and \<^verbatim>\<open>./test-config\<close> with the type configured as toml.\<close>

theorem config_file_by_extension_witness:
  "configFilePath (exampleEngine\<lparr> configFilePath := ''x.json'', configFileType := ''toml'' \<rparr>) \<noteq> []
   \<and> osStat exampleWorld ''x.json'' = IsFile
   \<and> findConfigFile viperSupportedExts exampleWorld
        (exampleEngine\<lparr> configFilePath := ''x.json'', configFileType := ''toml'' \<rparr>) =
       ((True, None), exampleEngine\<lparr> configFilePath := ''x.json'', configFileType := ''toml'',
            viper := Some (viperNew\<lparr> configFile := ''x.json'' \<rparr>) \<rparr>)
   \<and> findConfigFile viperSupportedExts exampleWorld
        (exampleEngine\<lparr> configFilePath := ''x.xyz'', configFileType := ''toml'' \<rparr>) =
       ((True, None), exampleEngine\<lparr> configFilePath := ''x.xyz'', configFileType := ''toml'',
            viper := Some (viperNew\<lparr> configFile := ''x.xyz'', configType := ''toml'' \<rparr>) \<rparr>)
   \<and> findConfigFile viperSupportedExts exampleWorld
        (exampleEngine\<lparr> configFilePath := ''./test-config'', configFileType := ''toml'' \<rparr>) =
       ((True, None), exampleEngine\<lparr> configFilePath := ''./test-config'', configFileType := ''toml'',
            viper := Some (viperNew\<lparr> configFile := ''./test-config'', configType := ''toml'' \<rparr>) \<rparr>)"
  using config_file_by_extension [of "exampleEngine\<lparr> configFilePath := ''x.json'', configFileType := ''toml'' \<rparr>"
      exampleWorld viperNew viperSupportedExts]
  by (simp add: exampleEngine_def initial_def exampleWorld_def findConfigFile_def Let_def
      filepathExt_def trimPrefixDot_def viperSupportedExts_def setConfigFile_def setConfigType_def
      viperNew_def)

text \<open>
  Claim C6: for a non-empty path whose stat fails, non-existence gives the not-found
  error and any other failure gives the indeterminate one, and the two differ; in both
  cases \<open>mergeInConfigFile\<close> returns the error with the engine and its settings store
  untouched, so no file is read, and \<open>UnmarshalExact\<close> returns just that.
\<close>

theorem stat_failure_two_errors:
  assumes "configFilePath sch \<noteq> []"
    and "osStat w (configFilePath sch) = r"
    and "r = NotExist \<or> r = StatError msg"
  shows "findConfigFile supp w sch =
           ((False, Some (if r = NotExist then NoSuchFile (configFilePath sch)
                          else Schrodinger (configFilePath sch) msg)), sch)
       \<and> mergeInConfigFile supp w sch =
           (Some (WhileFinding (configFilePath sch)
                    (if r = NotExist then NoSuchFile (configFilePath sch)
                     else Schrodinger (configFilePath sch) msg)), sch)
       \<and> UnmarshalExact dec supp w sch = mergeInConfigFile supp w sch
       \<and> NoSuchFile (configFilePath sch) \<noteq> Schrodinger (configFilePath sch) msg"
  using assms
  by (auto simp: findConfigFile_def mergeInConfigFile_def UnmarshalExact_def
      mergeIfConfigured_def)

text \<open>The path of the test that does not exist, and one that stat may not examine.\<close>

theorem stat_failure_two_errors_witness:
  "configFilePath (exampleEngine\<lparr> configFilePath := ''./nonexiting'' \<rparr>) \<noteq> []
   \<and> osStat exampleWorld ''./nonexiting'' = NotExist
   \<and> osStat exampleWorld ''/root/secret'' = StatError ''permission denied''
   \<and> mergeInConfigFile viperSupportedExts exampleWorld (exampleEngine\<lparr> configFilePath := ''./nonexiting'' \<rparr>) =
       (Some (WhileFinding ''./nonexiting'' (NoSuchFile ''./nonexiting'')),
        exampleEngine\<lparr> configFilePath := ''./nonexiting'' \<rparr>)
   \<and> mergeInConfigFile viperSupportedExts exampleWorld (exampleEngine\<lparr> configFilePath := ''/root/secret'' \<rparr>) =
       (Some (WhileFinding ''/root/secret'' (Schrodinger ''/root/secret'' ''permission denied'')),
        exampleEngine\<lparr> configFilePath := ''/root/secret'' \<rparr>)"
  using stat_failure_two_errors [of "exampleEngine\<lparr> configFilePath := ''./nonexiting'' \<rparr>"
      exampleWorld NotExist "[]" viperSupportedExts]
    stat_failure_two_errors [of "exampleEngine\<lparr> configFilePath := ''/root/secret'' \<rparr>"
      exampleWorld "StatError ''permission denied''" "''permission denied''" viperSupportedExts]
  by (simp add: exampleEngine_def initial_def exampleWorld_def)

section \<open>The result struct\<close>




text \<open>Two result structs for the examples.\<close>

definition structA :: "rvalue option" where
  "structA = Some (VPtr (Some (VStruct False
     [SField ''Workers'' True [(''mapstructure'', ''workers''), (''env'', ''WORKERS''),
        (''usage'', ''Number of workers to run'')] (VInt 128)])))"














section \<open>What the walk registers\<close>

definition flagNames :: "snakeCharmer \<Rightarrow> string list" where
  "flagNames s = (case cmd s of None \<Rightarrow> [] | Some c \<Rightarrow> map flagName (persistentFlags c))"





lemma applySetting_register:
  "applySetting sch ci x k h = Inr s \<Longrightarrow> \<exists>d. settingOf x = Some d \<and> register sch k d h = Inr s"
  by (cases x) (auto split: if_splits option.splits)

lemma bindLeaf_effect:
  assumes "bindLeaf sch f x k = Inr s"
  shows "\<exists>d c v. settingOf x = Some d \<and> cmd sch = Some c \<and> viper sch = Some v
          \<and> tagGet (ftag f) (flagHelpTagName sch) \<noteq> []
          \<and> cmd s = Some (defineFlag k d (tagGet (ftag f) (flagHelpTagName sch)) c)
          \<and> viper s = Some (if tagGet (ftag f) (envTagName sch) \<noteq> []
                             then bindEnv k (tagGet (ftag f) (envTagName sch))
                                    (bindPFlag k k (setDefault k d v))
                             else bindPFlag k k (setDefault k d v))
          \<and> sameConfig s sch"
proof -
  let ?h = "tagGet (ftag f) (flagHelpTagName sch)"
  from assms have h: "?h \<noteq> []"
    by (auto simp: bindLeaf_def Let_def split: if_splits)
  from assms obtain s1 where a: "applySetting sch (fexported f) x k ?h = Inr s1"
    by (auto simp: bindLeaf_def Let_def split: if_splits sum.splits)
  from applySetting_register [OF a] obtain d where
    d: "settingOf x = Some d" and r: "register sch k d ?h = Inr s1" by blast
  from r obtain c v where c: "cmd sch = Some c" and v: "viper sch = Some v"
    and s1: "s1 = sch\<lparr> cmd := Some (defineFlag k d ?h c), viper := Some (setDefault k d v) \<rparr>"
    by (auto simp: register_def split: option.splits)
  have l: "lookupFlag (defineFlag k d ?h c) k =
             Some \<lparr> flagName = k, flagDefault = d, flagUsage = ?h \<rparr>"
    by (simp add: lookupFlag_def defineFlag_def)
  from assms a s1 l h
  have "s = s1\<lparr> viper := Some (if tagGet (ftag f) (envTagName sch) \<noteq> []
                             then bindEnv k (tagGet (ftag f) (envTagName sch))
                                    (bindPFlag k k (setDefault k d v))
                             else bindPFlag k k (setDefault k d v)) \<rparr>"
    by (auto simp: bindLeaf_def Let_def split: if_splits)
  with s1 d c v h show ?thesis
    by (auto simp: sameConfig_def)
qed


lemma addFields_cases [consumes 1, case_names skip nested leaf]:
  assumes "addFields sch (f # rest) p = Inr s"
  obtains
    (skip) x where "deref (fvalue f) = Some x" "tagGet (ftag f) (fieldTagName sch) = []"
      "ignoreUntaggedFields sch" "addFields sch rest p = Inr s"
  | (nested) t gs s1 where "deref (fvalue f) = Some (VStruct t gs)"
      "tagGet (ftag f) (fieldTagName sch) \<noteq> []" "fexported f"
      "addFields sch gs (joinKey p (leafKey (tagGet (ftag f) (fieldTagName sch)))) = Inr s1"
      "addFields s1 rest p = Inr s"
  | (leaf) x s1 where "deref (fvalue f) = Some x"
      "tagGet (ftag f) (fieldTagName sch) \<noteq> []" "kindOf x \<noteq> KStruct"
      "bindLeaf sch f x (joinKey p (leafKey (tagGet (ftag f) (fieldTagName sch)))) = Inr s1"
      "addFields s1 rest p = Inr s"
proof (cases "deref (fvalue f)")
  case None
  with assms show ?thesis by simp
next
  case (Some x)
  show ?thesis
  proof (cases "tagGet (ftag f) (fieldTagName sch) = []")
    case True
    with assms Some skip show ?thesis by (simp split: if_splits)
  next
    case False
    show ?thesis
    proof (cases "kindOf x = KStruct")
      case True
      then obtain t gs where x: "x = VStruct t gs" by (auto simp: kindOf_struct)
      from assms show ?thesis
        unfolding addFields_struct [OF Some [unfolded x] False]
        using nested [OF Some [unfolded x] False]
        by (auto split: if_splits sum.splits)
    next
      case k: False
      from assms show ?thesis
        unfolding addFields_leaf [OF Some False k]
        using leaf [OF Some False k]
        by (auto split: sum.splits)
    qed
  qed
qed

lemma descriptors_skip:
  "tagGet (ftag f) tn = [] \<Longrightarrow> descriptors tn p (f # rest) = descriptors tn p rest"
  by (simp split: option.splits)

lemma descriptors_nested:
  "deref (fvalue f) = Some (VStruct t gs) \<Longrightarrow> tagGet (ftag f) tn \<noteq> [] \<Longrightarrow>
   descriptors tn p (f # rest) =
     descriptors tn (joinKey p (leafKey (tagGet (ftag f) tn))) gs @ descriptors tn p rest"
  by simp

lemma descriptors_leaf:
  "deref (fvalue f) = Some x \<Longrightarrow> tagGet (ftag f) tn \<noteq> [] \<Longrightarrow> kindOf x \<noteq> KStruct \<Longrightarrow>
   descriptors tn p (f # rest) =
     (joinKey p (leafKey (tagGet (ftag f) tn)), f, x) # descriptors tn p rest"
  by (cases x) simp_all

declare descriptors.simps(2) [simp del]









section \<open>The struct of the tests\<close>

text \<open>
  \<^verbatim>\<open>initTestStruct()\<close> of the tests, with its two nested structs, and the engine the
  tests build for it: field tag name \<^verbatim>\<open>snakecharmer\<close>, untagged fields ignored.
\<close>

definition testLogLimitsConfig :: rvalue where
  "testLogLimitsConfig = VStruct False
     [SField ''WarnsLimit'' True [(''snakecharmer'', ''warn,omitempty''),
        (''env'', ''TEST_LOG_LIMIT_WARN''), (''usage'', ''Limit warn messages per sec'')]
        (VPtr (Some (VUint 100))),
      SField ''ErrorsLimit'' True [(''snakecharmer'', ''error,omitempty''),
        (''env'', ''TEST_LOG_LIMIT_ERROR''), (''usage'', ''Limit error messages per sec'')]
        (VPtr (Some (VUint 100))),
      SField ''ignoreMe'' False [] (VBool True)]"

definition testLoggingConfig :: rvalue where
  "testLoggingConfig = VStruct False
     [SField ''Level'' True [(''snakecharmer'', ''level,omitempty''), (''env'', ''TEST_LOG_LEVEL''),
        (''usage'', ''Log level'')] (VPtr (Some (VString ''info''))),
      SField ''LogJSON'' True [(''snakecharmer'', ''json,omitempty''), (''env'', ''TEST_LOG_JSON''),
        (''usage'', ''Log in JSON format'')] (VPtr (Some (VBool False))),
      SField ''LogLimits'' True [(''snakecharmer'', ''limit,omitempty'')]
        (VPtr (Some testLogLimitsConfig)),
      SField ''LogDestinations'' True [(''snakecharmer'', ''dst,omitempty''),
        (''usage'', ''Log to multiple destinations'')]
        (VPtr (Some (VStrMap (Some [(''error'', ''/var/log/error.log''),
                                    (''debug'', ''/var/log/debug.log'')])))),
      SField ''ignoreMe'' False [] (VBool True)]"

definition testFields :: "sfield list" where
  "testFields =
     [SField ''Workers'' True [(''snakecharmer'', ''workers,omitempty''), (''env'', ''TEST_WORKERS''),
        (''usage'', ''Number of workers to run'')] (VPtr (Some (VInt 128))),
      SField ''MaxBurst'' True [(''snakecharmer'', ''max-burst,omitempty''), (''env'', ''TEST_MAX_BURST''),
        (''usage'', ''Max burst allowed, e.g 1.25'')] (VPtr (Some (VFloat 5 (-2)))),
      SField ''BindAddr'' True [(''snakecharmer'', ''bind-addr,omitempty''), (''env'', ''TEST_BIND_ADDR''),
        (''usage'', ''Addr to bind'')] (VPtr (Some (VString ''0.0.0.0''))),
      SField ''UpstreamURls'' True [(''snakecharmer'', ''upstreams,omitempty''),
        (''usage'', ''List of upstream urls'')]
        (VPtr (Some (VStrings (Some [''http://www.foo.com/'', ''http://www.bar.com/''])))),
      SField ''Logging'' True [(''snakecharmer'', ''log,omitempty'')] (VPtr (Some testLoggingConfig)),
      SField ''ignoreMe'' False [] (VBool True)]"

definition testEngine :: snakeCharmer where
  "testEngine = exampleEngine\<lparr> resultStruct := Some (VPtr (Some (VStruct False testFields))),
     fieldTagName := ''snakecharmer'', ignoreUntaggedFields := True,
     decoderConfigOptions := [IgnoreUntaggedOption True] \<rparr>"

lemmas walk_simps = testFields_def testLoggingConfig_def testLogLimitsConfig_def testEngine_def
  exampleEngine_def initial_def viperNew_def commandNew_def tagGet_def leafKey_def bindLeaf_def
  register_def defineFlag_def setDefault_def bindPFlag_def bindEnv_def lookupFlag_def Let_def

section \<open>Dotted keys\<close>

text \<open>
  Claim C3: the options that a walk defines are exactly the dotted keys of the spec's
  descriptors, in the order of the walk: for a nested struct field, at any depth, the
  keys of its fields under the parent's key joined with a dot (the prefix applied
  only when it is not empty), and no option for the struct field itself.
\<close>

theorem dotted_keys:
  "addFields sch fs p = Inr s \<Longrightarrow>
   flagNames s = rev (map fst (descriptors (fieldTagName sch) p fs)) @ flagNames sch"
proof (induction fs arbitrary: sch p s rule: fields_induct)
  case Nil
  then show ?case by simp
next
  case (Cons f rest)
  from Cons.prems show ?case
  proof (cases rule: addFields_cases)
    case (skip x)
    with Cons.IH(1) [OF skip(4)] show ?thesis by (simp add: descriptors_skip)
  next
    case (nested t gs s1)
    from addFields_same [OF nested(4)] have tn: "fieldTagName s1 = fieldTagName sch"
      by (simp add: sameConfig_def)
    from Cons.IH(2) [OF nested(1) nested(4)] Cons.IH(1) [OF nested(5)] tn
    show ?thesis by (simp add: descriptors_nested [OF nested(1) nested(2)])
  next
    case (leaf x s1)
    from bindLeaf_effect [OF leaf(4)] have
      tn: "fieldTagName s1 = fieldTagName sch"
      and fl: "flagNames s1 = joinKey p (leafKey (tagGet (ftag f) (fieldTagName sch))) # flagNames sch"
      by (auto simp: sameConfig_def flagNames_def defineFlag_def)
    from Cons.IH(1) [OF leaf(5)] tn fl
    show ?thesis by (simp add: descriptors_leaf [OF leaf(1) leaf(2) leaf(3)])
  qed
qed

text \<open>The flag names the tests expect, \<^verbatim>\<open>log.level\<close> and \<^verbatim>\<open>log.limit.warn\<close> among them.\<close>

theorem dotted_keys_witness:
  "\<not> isl (addFields testEngine testFields [])
   \<and> flagNames (projr (addFields testEngine testFields [])) =
       rev [''workers'', ''max-burst'', ''bind-addr'', ''upstreams'', ''log.level'', ''log.json'',
            ''log.limit.warn'', ''log.limit.error'', ''log.dst'']"
proof -
  have a: "\<not> isl (addFields testEngine testFields [])"
    by (simp add: walk_simps)
  then have b: "addFields testEngine testFields [] = Inr (projr (addFields testEngine testFields []))"
    by simp
  have d: "map fst (descriptors ''snakecharmer'' [] testFields) =
      [''workers'', ''max-burst'', ''bind-addr'', ''upstreams'', ''log.level'', ''log.json'',
       ''log.limit.warn'', ''log.limit.error'', ''log.dst'']"
    by (simp add: descriptors.simps(2) testFields_def testLoggingConfig_def testLogLimitsConfig_def
        tagGet_def leafKey_def joinKey_def)
  from dotted_keys [OF b] a d show ?thesis
    by (simp add: testEngine_def exampleEngine_def commandNew_def flagNames_def)
qed



section \<open>Precedence\<close>


lemma findConfigFile_indep:
  "findConfigFile supp w (s\<lparr> decoderConfigOptions := od, resultStruct := r \<rparr>) =
     (case findConfigFile supp w s of
        (res, s1) \<Rightarrow> (res, s1\<lparr> decoderConfigOptions := od, resultStruct := r \<rparr>))"
  by (simp add: findConfigFile_def Let_def split: statResult.splits option.splits)

lemma mergeIfConfigured_indep:
  "mergeIfConfigured supp w (s\<lparr> decoderConfigOptions := od, resultStruct := r \<rparr>) =
     (case mergeIfConfigured supp w s of
        (e, s1) \<Rightarrow> (e, s1\<lparr> decoderConfigOptions := od, resultStruct := r \<rparr>))"
  by (auto simp: mergeIfConfigured_def mergeInConfigFile_def findConfigFile_indep
      split: prod.splits option.splits sum.splits)

lemma mergeIfConfigured_idem:
  assumes "mergeIfConfigured supp w s = (e, s1)"
  shows "mergeIfConfigured supp w s1 = (e, s1)"
proof (cases "length (configFilePath s) > 0")
  case False
  with assms show ?thesis by (auto simp: mergeIfConfigured_def)
next
  case True
  show ?thesis
  proof (cases "viper s")
    case None
    with assms True show ?thesis
      by (auto simp: mergeIfConfigured_def mergeInConfigFile_def findConfigFile_def Let_def
          split: statResult.splits)
  next
    case (Some v)
    show ?thesis
    proof (cases "osStat w (configFilePath s)")
      case IsDir
      with assms True Some show ?thesis
        by (auto simp: mergeIfConfigured_def mergeInConfigFile_def findConfigFile_def Let_def
            readInConfig_def setConfigName_def addConfigPath_def
            split: sum.splits prod.splits if_splits)
    next
      case IsFile
      with assms True Some show ?thesis
        by (auto simp: mergeIfConfigured_def mergeInConfigFile_def findConfigFile_def Let_def
            readInConfig_def setConfigFile_def setConfigType_def
            split: sum.splits prod.splits if_splits)
    next
      case NotExist
      with assms True Some show ?thesis
        by (auto simp: mergeIfConfigured_def mergeInConfigFile_def findConfigFile_def)
    next
      case (StatError msg)
      with assms True Some show ?thesis
        by (auto simp: mergeIfConfigured_def mergeInConfigFile_def findConfigFile_def)
    qed
  qed
qed


lemma decoderConfigOf_tag_twice:
  "decoderConfigOf (withTagNameOption ((withTagNameOption s)\<lparr> resultStruct := r \<rparr>)) =
   decoderConfigOf (withTagNameOption s)"
  by (simp add: decoderConfigOf_def withTagNameOption_def applyDecoderOption_def)

lemma viperUnmarshalExact_shape:
  "viperUnmarshalExact dec w s = (e, s1) \<Longrightarrow> s1 = s\<lparr> resultStruct := resultStruct s1 \<rparr>"
  by (auto simp: viperUnmarshalExact_def split: option.splits rvalue.splits prod.splits)

section \<open>Idempotence\<close>

text \<open>
  Claim C7: resolving twice with the same command line, environment, files and
  defaults gives the same error or none and the same result struct both times. The
  decode step is the external decoder's; it is taken to give the same outcome when
  it decodes the same settings into the struct it has just decoded them into. What
  is shown of the engine: the second merge leaves the settings store as the first
  did, and the tag name option appended a second time changes nothing of the decoder
  configuration.
\<close>

theorem resolution_idempotent:
  assumes idem: "\<forall>c S x. dec c S (snd (dec c S x)) = dec c S x"
  shows "fst (UnmarshalExact dec supp w (snd (UnmarshalExact dec supp w sch)))
           = fst (UnmarshalExact dec supp w sch)
       \<and> resultStruct (snd (UnmarshalExact dec supp w (snd (UnmarshalExact dec supp w sch))))
           = resultStruct (snd (UnmarshalExact dec supp w sch))"
proof -
  obtain e s1 where m: "mergeIfConfigured supp w sch = (e, s1)"
    by (cases "mergeIfConfigured supp w sch")
  note m1 = mergeIfConfigured_idem [OF m]
  show ?thesis
  proof (cases e)
    case (Some err)
    with m m1 show ?thesis by (simp add: UnmarshalExact_def)
  next
    case None
    let ?t = "withTagNameOption s1"
    obtain e2 a where u: "viperUnmarshalExact dec w ?t = (e2, a)"
      by (cases "viperUnmarshalExact dec w ?t")
    from viperUnmarshalExact_shape [OF u] have a: "a = ?t\<lparr> resultStruct := resultStruct a \<rparr>" .
    have first: "UnmarshalExact dec supp w sch = (e2, a)"
      using m None u by (simp add: UnmarshalExact_def)
    have ma: "mergeIfConfigured supp w a = (None, a)"
    proof (cases "fieldTagName s1 \<noteq> ''mapstructure''")
      case True
      then have "a = s1\<lparr> decoderConfigOptions := decoderConfigOptions s1 @ [TagNameOption],
                          resultStruct := resultStruct a \<rparr>"
        using a by (simp add: withTagNameOption_def)
      then show ?thesis
        using mergeIfConfigured_indep [where supp = supp and w = w and s = s1
            and od = "decoderConfigOptions s1 @ [TagNameOption]" and r = "resultStruct a"] m1 None
        by simp
    next
      case False
      then have "a = s1\<lparr> decoderConfigOptions := decoderConfigOptions s1,
                          resultStruct := resultStruct a \<rparr>"
        using a by (simp add: withTagNameOption_def)
      then show ?thesis
        using mergeIfConfigured_indep [where supp = supp and w = w and s = s1
            and od = "decoderConfigOptions s1" and r = "resultStruct a"] m1 None
        by simp
    qed
    have second: "UnmarshalExact dec supp w a = viperUnmarshalExact dec w (withTagNameOption a)"
      using ma by (simp add: UnmarshalExact_def)
    have cfg: "decoderConfigOf (withTagNameOption a) = decoderConfigOf ?t"
      using decoderConfigOf_tag_twice [where s = s1 and r = "resultStruct a"] a by simp
    have vp: "viper (withTagNameOption a) = viper ?t"
    proof -
      have "viper a = viper ?t" by (subst a) simp
      then show ?thesis by (simp add: withTagNameOption_def)
    qed
    have rs: "resultStruct (withTagNameOption a) = resultStruct a"
      by (simp add: withTagNameOption_def)
    have "fst (viperUnmarshalExact dec w (withTagNameOption a)) = e2
        \<and> resultStruct (snd (viperUnmarshalExact dec w (withTagNameOption a))) = resultStruct a"
    proof (cases "viper ?t")
      case None
      with u vp rs show ?thesis by (auto simp: viperUnmarshalExact_def)
    next
      case (Some v)
      show ?thesis
      proof (cases "\<exists>x. resultStruct ?t = Some (VPtr (Some x))")
        case False
        then have "viperUnmarshalExact dec w ?t =
            (Some (WhileUnmarshalling ''result must be a pointer''), ?t)"
          using Some by (auto simp: viperUnmarshalExact_def split: option.splits rvalue.splits)
        with u have e2: "e2 = Some (WhileUnmarshalling ''result must be a pointer'')"
          and at: "a = ?t"
          by simp_all
        from rs at have rt: "resultStruct (withTagNameOption a) = resultStruct ?t" by simp
        have "viperUnmarshalExact dec w (withTagNameOption a) =
            (Some (WhileUnmarshalling ''result must be a pointer''), withTagNameOption a)"
          using False Some vp rt
          by (auto simp: viperUnmarshalExact_def split: option.splits rvalue.splits)
        with e2 rs show ?thesis by simp
      next
        case True
        then obtain x where x: "resultStruct ?t = Some (VPtr (Some x))" by blast
        let ?c = "decoderConfigOf ?t" and ?S = "allSettings v w"
        obtain er x1 where d: "dec ?c ?S x = (er, x1)" by (cases "dec ?c ?S x")
        from u Some x d have e2: "e2 = map_option WhileUnmarshalling er"
          and ra: "resultStruct a = Some (VPtr (Some x1))"
          by (auto simp: viperUnmarshalExact_def split: option.splits)
        from idem d have d2: "dec ?c ?S x1 = (er, x1)"
          by (metis snd_conv)
        show ?thesis
          using Some vp rs ra cfg d2 e2
          by (auto simp: viperUnmarshalExact_def split: option.splits)
      qed
    qed
    with first second show ?thesis by simp
  qed
qed


section \<open>The scenario of the spec\<close>

text \<open>
  A field \<^verbatim>\<open>Workers\<close> with default 128, bound to the variable \<^verbatim>\<open>WORKERS\<close>; the
  environment sets it to 512; then \<^verbatim>\<open>--workers=999\<close> is passed as well.
\<close>

definition workersEngine :: snakeCharmer where
  "workersEngine = exampleEngine\<lparr> resultStruct := structA \<rparr>"

definition workersField :: sfield where
  "workersField = SField ''Workers'' True [(''mapstructure'', ''workers''), (''env'', ''WORKERS''),
        (''usage'', ''Number of workers to run'')] (VInt 128)"

definition world512 :: world where
  "world512 = exampleWorld\<lparr> environ := [''WORKERS'' \<mapsto> ''512''] \<rparr>"

definition world999 :: world where
  "world999 = world512\<lparr> flagsSet := [''workers'' \<mapsto> SInt 999] \<rparr>"

text \<open>
  A decoder for the examples: it copies the setting of each field of the struct into
  the field.
\<close>

fun valueOf :: "setting \<Rightarrow> rvalue" where
  "valueOf (SBool b) = VBool b"
| "valueOf (SUint n) = VUint n"
| "valueOf (SInt i) = VInt i"
| "valueOf (SFloat m e) = VFloat m e"
| "valueOf (SString s) = VString s"
| "valueOf (SStrings ys) = VStrings (Some ys)"
| "valueOf (SStrMap kvs) = VStrMap (Some kvs)"

definition copyField :: "string \<Rightarrow> (string \<rightharpoonup> setting) \<Rightarrow> sfield \<Rightarrow> sfield" where
  "copyField tn S f =
     (case S (leafKey (tagGet (ftag f) tn)) of
        None \<Rightarrow> f
      | Some a \<Rightarrow>
          SField (fname f) (fexported f) (ftag f)
            (case fvalue f of VPtr p \<Rightarrow> VPtr (Some (valueOf a)) | _ \<Rightarrow> valueOf a))"

definition exampleDecoder :: decoder where
  "exampleDecoder c S x =
     (case x of
        VStruct t fs \<Rightarrow>
          (None, VStruct t (map (copyField (if dcTagName c = [] then ''mapstructure''
                                            else dcTagName c) S) fs))
      | _ \<Rightarrow> (Some ''not a struct'', x))"

lemma valueOf_not_ptr: "valueOf a \<noteq> VPtr p"
  by (cases a) simp_all

lemma copyField_idem: "copyField tn S (copyField tn S f) = copyField tn S f"
  by (cases f; cases "fvalue f")
     (auto simp: copyField_def valueOf_not_ptr split: option.splits rvalue.splits)

lemma exampleDecoder_idem:
  "\<forall>c S x. exampleDecoder c S (snd (exampleDecoder c S x)) = exampleDecoder c S x"
  by (auto simp: exampleDecoder_def copyField_idem split: rvalue.splits)

lemmas workers_simps = workersEngine_def workersField_def structA_def exampleEngine_def
  initial_def viperNew_def commandNew_def tagGet_def leafKey_def bindLeaf_def register_def
  defineFlag_def setDefault_def bindPFlag_def bindEnv_def lookupFlag_def Let_def AddFlags_def



text \<open>Resolving once and twice with \<^verbatim>\<open>--workers=999\<close>.\<close>

theorem resolution_idempotent_witness:
  "resultStruct (snd (UnmarshalExact exampleDecoder viperSupportedExts world999
       (projr (AddFlags workersEngine))))
     = Some (VPtr (Some (VStruct False
         [SField ''Workers'' True [(''mapstructure'', ''workers''), (''env'', ''WORKERS''),
            (''usage'', ''Number of workers to run'')] (VInt 999)])))
   \<and> resultStruct (snd (UnmarshalExact exampleDecoder viperSupportedExts world999
       (snd (UnmarshalExact exampleDecoder viperSupportedExts world999
          (projr (AddFlags workersEngine))))))
     = Some (VPtr (Some (VStruct False
         [SField ''Workers'' True [(''mapstructure'', ''workers''), (''env'', ''WORKERS''),
            (''usage'', ''Number of workers to run'')] (VInt 999)])))"
proof -
  have a: "resultStruct (snd (UnmarshalExact exampleDecoder viperSupportedExts world999
       (projr (AddFlags workersEngine))))
     = Some (VPtr (Some (VStruct False
         [SField ''Workers'' True [(''mapstructure'', ''workers''), (''env'', ''WORKERS''),
            (''usage'', ''Number of workers to run'')] (VInt 999)])))"
    by (simp add: UnmarshalExact_def mergeIfConfigured_def withTagNameOption_def
        viperUnmarshalExact_def workers_simps exampleDecoder_def copyField_def
        decoderConfigOf_def decoderDefaults_def allSettings_def findValue_def flagLayer_def
        envLayer_def world999_def world512_def exampleWorld_def)
  from resolution_idempotent [OF exampleDecoder_idem, of viperSupportedExts world999
      "projr (AddFlags workersEngine)"] a
  show ?thesis by simp
qed


end
